theory Spec2Isabelle
  imports Main "HOL-Library.Word" "HOL-Library.Sublist"
begin

section \<open>The inpainting editor: data model\<close>

text \<open>
  Shallow embedding of \<^verbatim>\<open>src/components/ImageEditor.tsx\<close> and
  \<^verbatim>\<open>src/services/geminiService.ts\<close>. The component's refs and React state are
  the fields of one record, each handler is a function from that record to the updated
  record, and every \<^verbatim>\<open>if (!x) return\<close> of the source is a branch.
  \<^verbatim>\<open>resizeCanvases\<close>, which computes the display size in double-precision
  arithmetic, is not part of the embedding, and neither are the two refs that only it
  reads (\<^verbatim>\<open>imageCanvasRef\<close>, \<^verbatim>\<open>containerRef\<close>).

  A canvas bitmap and the \<^verbatim>\<open>data\<close> of an \<^verbatim>\<open>ImageData\<close> are lists of RGBA
  quadruples in row-major order (the source's \<^verbatim>\<open>Uint8ClampedArray\<close> holds the same
  bytes, four per pixel, so \<^verbatim>\<open>data[i + 3]\<close> is the fourth component of pixel
  \<^verbatim>\<open>i / 4\<close>).
\<close>

type_synonym u8 = "8 word"
type_synonym rgba = "u8 \<times> u8 \<times> u8 \<times> u8"

definition alpha :: "rgba \<Rightarrow> u8" where
  "alpha p = (case p of (r, g, b, a) \<Rightarrow> a)"

definition transparent :: rgba where
  "transparent = (0, 0, 0, 0)"

record ImageData =
  width :: nat
  height :: nat
  data :: "rgba list"

datatype Tool = brush | eraser

datatype CompositeOperation = source_over | destination_out

text \<open>A pointer position. The handlers pass it on to the path and never compute with it.\<close>

type_synonym point = "int \<times> int"

text \<open>
  The drawing surface: its size, its bitmap, whether \<^verbatim>\<open>getContext('2d')\<close> yields a
  context, and the part of the context's drawing state that the handlers set.
\<close>

record HTMLCanvasElement =
  canvas_width :: nat
  canvas_height :: nat
  bitmap :: "rgba list"
  context2d :: bool
  globalCompositeOperation :: CompositeOperation
  path :: "point list"
  strokeStyle :: string
  lineWidth :: nat
  lineCap :: string
  lineJoin :: string

record HTMLImageElement =
  naturalWidth :: nat
  naturalHeight :: nat

record editor =
  imageFile :: string
  drawingCanvasRef :: "HTMLCanvasElement option"
  isDrawing :: bool
  brushSize :: nat
  prompt :: string
  isLoading :: bool
  error :: "string option"
  tool :: Tool
  isMaskVisible :: bool
  history :: "ImageData list"
  historyIndex :: int
  image :: "HTMLImageElement option"

text \<open>
  What a \<^verbatim>\<open>throw\<close> carries: an \<^verbatim>\<open>Error\<close> with its message (a
  \<^verbatim>\<open>DOMException\<close> is one; its name stands for the browser's message text), or a
  value that is no \<^verbatim>\<open>Error\<close>, with what \<^verbatim>\<open>String\<close> makes of it.
\<close>

datatype thrown = Error string | NonError string

section \<open>Canvas primitives\<close>

text \<open>The pixels of the whole surface, as an \<^verbatim>\<open>ImageData\<close>.\<close>

definition pixelsOf :: "HTMLCanvasElement \<Rightarrow> ImageData" where
  "pixelsOf c = \<lparr>width = canvas_width c, height = canvas_height c, data = bitmap c\<rparr>"

text \<open>
  \<^verbatim>\<open>ctx.getImageData(0, 0, canvas.width, canvas.height)\<close>: a copy of the whole
  bitmap. The platform raises \<^verbatim>\<open>IndexSizeError\<close> when the rectangle asked for has
  width or height 0, which is the case when the canvas has.
\<close>

definition getImageData :: "HTMLCanvasElement \<Rightarrow> thrown + ImageData" where
  "getImageData c =
     (if canvas_width c = 0 \<or> canvas_height c = 0 then Inl (Error ''IndexSizeError'')
      else Inr (pixelsOf c))"

text \<open>\<^verbatim>\<open>ctx.clearRect(0, 0, canvas.width, canvas.height)\<close>: every pixel transparent black.\<close>

definition clearRect :: "HTMLCanvasElement \<Rightarrow> HTMLCanvasElement" where
  "clearRect c = c\<lparr>bitmap := replicate (canvas_width c * canvas_height c) transparent\<rparr>"

text \<open>
  \<^verbatim>\<open>ctx.putImageData(imageData, 0, 0)\<close>: the pixels of the image replace those of the
  bitmap where the two rectangles overlap, whatever the compositing mode; the rest of the
  bitmap stays. Pixel \<open>i\<close> of the bitmap is column \<open>i mod w\<close> of row \<open>i div w\<close>.
\<close>

definition putImageData :: "HTMLCanvasElement \<Rightarrow> ImageData \<Rightarrow> HTMLCanvasElement" where
  "putImageData c img =
     c\<lparr>bitmap :=
         map (\<lambda>i. let x = i mod canvas_width c; y = i div canvas_width c
                   in if x < width img \<and> y < height img \<and> y * width img + x < length (data img)
                      then data img ! (y * width img + x)
                      else bitmap c ! i)
             [0 ..< length (bitmap c)]\<rparr>"

section \<open>JavaScript array primitives\<close>

text \<open>\<^verbatim>\<open>xs[i]\<close>: \<^verbatim>\<open>undefined\<close> outside the array, which is \<open>None\<close> here.\<close>

definition at :: "'a list \<Rightarrow> int \<Rightarrow> 'a option" where
  "at xs i = (if 0 \<le> i \<and> i < int (length xs) then Some (xs ! nat i) else None)"

text \<open>
  \<^verbatim>\<open>xs.splice(start)\<close> with one argument removes everything from \<open>start\<close> to the
  end; a negative \<open>start\<close> counts from the end, and both are clamped to the array. The
  result here is what stays in the array.
\<close>

definition splice :: "'a list \<Rightarrow> int \<Rightarrow> 'a list" where
  "splice xs start =
     (let n = int (length xs);
          k = (if start < 0 then max (n + start) 0 else min start n)
      in take (nat k) xs)"

section \<open>The raster history\<close>

text \<open>
  An exception of a platform call that the handler does not catch ends the handler; the
  refs and the state keep what was assigned before it. So a handler is still a function
  from state to state.
\<close>

definition saveToHistory :: "editor \<Rightarrow> editor" where
  "saveToHistory st =
     (case drawingCanvasRef st of
        None \<Rightarrow> st
      | Some canvas \<Rightarrow>
          if \<not> context2d canvas then st
          else
            (case getImageData canvas of
               Inl e \<Rightarrow> st
             | Inr imageData \<Rightarrow>
                 let h = splice (history st) (historyIndex st + 1) @ [imageData]
                 in st\<lparr>history := h, historyIndex := int (length h) - 1\<rparr>))"

definition handleUndo :: "editor \<Rightarrow> editor" where
  "handleUndo st =
     (if historyIndex st > 0 then
        let st1 = st\<lparr>historyIndex := historyIndex st - 1\<rparr>
        in (case (drawingCanvasRef st1, at (history st1) (historyIndex st1)) of
              (Some canvas, Some imageData) \<Rightarrow>
                if context2d canvas
                then st1\<lparr>drawingCanvasRef := Some (putImageData (clearRect canvas) imageData)\<rparr>
                else st1
            | _ \<Rightarrow> st1)
      else st)"

definition clearMask :: "editor \<Rightarrow> editor" where
  "clearMask st =
     (let st1 = st\<lparr>historyIndex := 0\<rparr>
      in (case (drawingCanvasRef st1, at (history st1) (historyIndex st1)) of
            (Some canvas, Some imageData) \<Rightarrow>
              if context2d canvas
              then saveToHistory
                     (st1\<lparr>drawingCanvasRef := Some (putImageData (clearRect canvas) imageData)\<rparr>)
              else st1
          | _ \<Rightarrow> st1))"

text \<open>\<^verbatim>\<open>history.current[historyIndex.current]\<close>, the snapshot under the cursor.\<close>

definition current :: "editor \<Rightarrow> ImageData option" where
  "current st = at (history st) (historyIndex st)"

section \<open>The platform\<close>

text \<open>
  What the browser and the generation service do is not code of this repository. It is a
  parameter of every function that calls it: the rasteriser behind \<^verbatim>\<open>ctx.stroke()\<close>,
  the resampling filter behind the scaling \<^verbatim>\<open>drawImage\<close>, whether a freshly created
  canvas of a given size yields a 2D context, the PNG encoder behind
  \<^verbatim>\<open>toDataURL\<close>, the \<^verbatim>\<open>FileReader\<close>, the environment's \<^verbatim>\<open>API_KEY\<close>, the
  service's answer to a request, and \<^verbatim>\<open>JSON.stringify\<close> on safety ratings.
\<close>

datatype Blob = Blob (blobData: "string option")

datatype Part = Part (partText: "string option") (inlineData: "Blob option")

datatype Content = Content (parts: "Part list option")

datatype SafetyRating = SafetyRating (category: string) (probability: string)

datatype Candidate =
  Candidate (content: "Content option") (safetyRatings: "SafetyRating list option")

text \<open>
  The response of the service carries safety details in two places: the
  \<^verbatim>\<open>safetyRatings\<close> of each candidate, and \<^verbatim>\<open>promptFeedback\<close>, which holds the
  block reason and the ratings when the service declines the prompt itself and returns
  no candidate. The source reads the first candidate only.
\<close>

datatype PromptFeedback =
  PromptFeedback (blockReason: "string option") (promptSafetyRatings: "SafetyRating list option")

datatype GenerateContentResponse =
  GenerateContentResponse (candidates: "Candidate list option")
    (promptFeedback: "PromptFeedback option")

datatype RequestPart = TextPart string | InlineDataPart string string

record GenerateContentParameters =
  model :: string
  contents :: "RequestPart list"
  responseModalities :: "string list"

record platform =
  rasterStroke :: "HTMLCanvasElement \<Rightarrow> rgba list"
  scaled :: "HTMLCanvasElement \<Rightarrow> nat \<Rightarrow> nat \<Rightarrow> nat \<Rightarrow> rgba"
  createContext :: "nat \<Rightarrow> nat \<Rightarrow> bool"
  toDataURL :: "HTMLCanvasElement \<Rightarrow> string"
  readAsDataURL :: "string \<Rightarrow> string option"
  API_KEY :: "string option"
  generateContent :: "GenerateContentParameters \<Rightarrow> thrown + GenerateContentResponse"
  JSON_stringify :: "SafetyRating list \<Rightarrow> string"

section \<open>The stroke renderer\<close>

text \<open>
  A pointer event carries the position that \<^verbatim>\<open>getPointerPos\<close> computes from it.
  \<^verbatim>\<open>beginPath\<close>, \<^verbatim>\<open>moveTo\<close>, \<^verbatim>\<open>lineTo\<close> and \<^verbatim>\<open>closePath\<close> change the
  current path only; \<^verbatim>\<open>stroke\<close> is the one call that paints.
\<close>

definition startDrawing :: "editor \<Rightarrow> point \<Rightarrow> editor" where
  "startDrawing st pos =
     (case drawingCanvasRef st of
        None \<Rightarrow> st
      | Some canvas \<Rightarrow>
          if \<not> context2d canvas then st
          else st\<lparr>isDrawing := True,
                  drawingCanvasRef := Some (canvas
                    \<lparr>globalCompositeOperation :=
                       (if tool st = brush then source_over else destination_out),
                     path := [pos]\<rparr>)\<rparr>)"

definition draw :: "platform \<Rightarrow> editor \<Rightarrow> point \<Rightarrow> editor" where
  "draw P st pos =
     (if \<not> isDrawing st then st
      else case drawingCanvasRef st of
        None \<Rightarrow> st
      | Some canvas \<Rightarrow>
          if \<not> context2d canvas then st
          else
            let c1 = canvas\<lparr>path := path canvas @ [pos],
                           strokeStyle := (if tool st = brush then ''rgba(255, 0, 255, 0.7)''
                                           else ''rgba(0,0,0,1)''),
                           lineWidth := brushSize st,
                           lineCap := ''round'',
                           lineJoin := ''round''\<rparr>
            in st\<lparr>drawingCanvasRef := Some (c1\<lparr>bitmap := rasterStroke P c1\<rparr>)\<rparr>)"

definition closePath :: "HTMLCanvasElement \<Rightarrow> HTMLCanvasElement" where
  "closePath c = c\<lparr>path := (case path c of [] \<Rightarrow> [] | p # ps \<Rightarrow> p # ps @ [p])\<rparr>"

definition stopDrawing :: "editor \<Rightarrow> editor" where
  "stopDrawing st =
     (case drawingCanvasRef st of
        None \<Rightarrow> st
      | Some canvas \<Rightarrow>
          if \<not> isDrawing st then st
          else
            let canvas1 = (if context2d canvas then closePath canvas else canvas)
            in saveToHistory (st\<lparr>drawingCanvasRef := Some canvas1, isDrawing := False\<rparr>))"

text \<open>
  One completed stroke: the tool and the brush diameter chosen for it, the pointer-down
  position, the positions of the move events, and the pointer-up.
\<close>

type_synonym stroke = "Tool \<times> nat \<times> point \<times> point list"

definition completeStroke :: "platform \<Rightarrow> editor \<Rightarrow> stroke \<Rightarrow> editor" where
  "completeStroke P st s =
     (case s of (t, diameter, down, moves) \<Rightarrow>
        stopDrawing (foldl (draw P) (startDrawing (st\<lparr>tool := t, brushSize := diameter\<rparr>) down) moves))"

section \<open>The generation service\<close>

definition fileDataToBase64 :: "string \<Rightarrow> string" where
  "fileDataToBase64 fileData =
     (case dropWhile (\<lambda>ch. ch \<noteq> CHR '','') fileData of [] \<Rightarrow> fileData | comma # rest \<Rightarrow> rest)"

definition systemPrompt :: "string \<Rightarrow> string" where
  "systemPrompt promptText =
     ''You are an expert image editor. The user will provide an image, a mask, and a text prompt.''
     @ [CHR 0x0A]
     @ ''You must edit the area of the image defined by the white parts of the mask according to the text prompt. ''
     @ [CHR 0x0A]
     @ ''The black parts of the mask must remain untouched. Only output the edited image.''
     @ [CHR 0x0A]
     @ ''User prompt: '' @ [CHR 0x22] @ promptText @ [CHR 0x22]"

definition request :: "string \<Rightarrow> string \<Rightarrow> string \<Rightarrow> GenerateContentParameters" where
  "request originalImageBase64 maskImageBase64 promptText =
     \<lparr>model = ''gemini-2.5-flash-image'',
      contents = [TextPart (systemPrompt promptText),
                  InlineDataPart (fileDataToBase64 originalImageBase64) ''image/png'',
                  InlineDataPart (fileDataToBase64 maskImageBase64) ''image/png''],
      responseModalities = [''IMAGE'']\<rparr>"

text \<open>\<^verbatim>\<open>response.candidates?.[0]\<close> and \<^verbatim>\<open>response.candidates?.[0]?.content?.parts?.[0]\<close>.\<close>

definition firstCandidate :: "GenerateContentResponse \<Rightarrow> Candidate option" where
  "firstCandidate response = Option.bind (candidates response) (\<lambda>cs. at cs 0)"

definition firstPart :: "GenerateContentResponse \<Rightarrow> Part option" where
  "firstPart response =
     Option.bind (firstCandidate response) (\<lambda>c.
     Option.bind (content c) (\<lambda>ct.
     Option.bind (parts ct) (\<lambda>ps. at ps 0)))"

text \<open>The \<^verbatim>\<open>else\<close> branch of the source: the message of the error thrown when no image came.\<close>

definition noImageMessage :: "platform \<Rightarrow> GenerateContentResponse \<Rightarrow> string" where
  "noImageMessage P response =
     (let safetyFeedback = Option.bind (firstCandidate response) safetyRatings;
          errorMessage = ''No image was generated. The response may have been blocked due to safety policies.''
      in case safetyFeedback of
           Some ratings \<Rightarrow> errorMessage @ '' Safety feedback: '' @ JSON_stringify P ratings
         | None \<Rightarrow> errorMessage)"

text \<open>The body of the source's \<^verbatim>\<open>try\<close> block.\<close>

definition tryGenerate :: "platform \<Rightarrow> GenerateContentParameters \<Rightarrow> thrown + string" where
  "tryGenerate P req =
     (case generateContent P req of
        Inl e \<Rightarrow> Inl e
      | Inr response \<Rightarrow>
          (case Option.bind (firstPart response) inlineData of
             Some blob \<Rightarrow>
               Inr (''data:image/png;base64,''
                    @ (case blobData blob of Some bytes \<Rightarrow> bytes | None \<Rightarrow> ''undefined''))
           | None \<Rightarrow> Inl (Error (noImageMessage P response))))"

definition editImageWithMask :: "platform \<Rightarrow> string \<Rightarrow> string \<Rightarrow> string \<Rightarrow> thrown + string" where
  "editImageWithMask P originalImageBase64 maskImageBase64 promptText =
     (if API_KEY P = None \<or> API_KEY P = Some []
      then Inl (Error ''API_KEY environment variable is not set. Please set it in your environment.'')
      else case tryGenerate P (request originalImageBase64 maskImageBase64 promptText) of
             Inl e \<Rightarrow>
               Inl (Error (''Failed to edit image: ''
                           @ (case e of Error message \<Rightarrow> message | NonError str \<Rightarrow> str)))
           | Inr dataUrl \<Rightarrow> Inr dataUrl)"

section \<open>The mask compositor\<close>

text \<open>
  Source-over compositing of one pixel onto another, on 8-bit channels without
  premultiplication: the resulting coverage is \<open>sa + da * (255 - sa) / 255\<close>, and each
  colour channel is the coverage-weighted mean of the two. How a browser rounds the
  colour channels is its own business; the coverage of a pixel drawn onto an opaque
  pixel is 255 whatever the rounding.
\<close>

definition sourceOver :: "rgba \<Rightarrow> rgba \<Rightarrow> rgba" where
  "sourceOver src dst =
     (case (src, dst) of ((rs, gs, bs, sa), (rd, gd, bd, da)) \<Rightarrow>
        let k = unat da * (255 - unat sa) div 255;
            oa = unat sa + k;
            ch = (\<lambda>cs cd. if oa = 0 then 0
                          else word_of_nat ((unat cs * unat sa + unat cd * k) div oa))
        in (ch rs rd, ch gs gd, ch bs bd, word_of_nat oa))"

text \<open>
  \<^verbatim>\<open>document.createElement('canvas')\<close> with its width and height set: a transparent
  bitmap and the context's defaults.
\<close>

definition createCanvas :: "platform \<Rightarrow> nat \<Rightarrow> nat \<Rightarrow> HTMLCanvasElement" where
  "createCanvas P w h =
     \<lparr>canvas_width = w, canvas_height = h,
      bitmap = replicate (w * h) transparent,
      context2d = createContext P w h,
      globalCompositeOperation = source_over,
      path = [], strokeStyle = ''#000000'', lineWidth = 1,
      lineCap = ''butt'', lineJoin = ''miter''\<rparr>"

text \<open>\<^verbatim>\<open>ctx.fillRect(0, 0, canvas.width, canvas.height)\<close> with the fill colour given.\<close>

definition fillRect :: "HTMLCanvasElement \<Rightarrow> rgba \<Rightarrow> HTMLCanvasElement" where
  "fillRect c fillStyle = c\<lparr>bitmap := map (sourceOver fillStyle) (bitmap c)\<rparr>"

text \<open>
  \<^verbatim>\<open>ctx.drawImage(src, 0, 0, dw, dh)\<close> where \<open>dw\<close> and \<open>dh\<close> are the size of the
  target, as in both calls of the source: the platform's \<open>scaled src dw dh i\<close> is the
  colour of the resampled source at pixel \<open>i\<close> of the target, and it is composited
  over what the target holds there. The platform raises \<^verbatim>\<open>InvalidStateError\<close> when
  the source canvas has width or height 0.
\<close>

definition drawImage ::
  "platform \<Rightarrow> HTMLCanvasElement \<Rightarrow> HTMLCanvasElement \<Rightarrow> nat \<Rightarrow> nat
     \<Rightarrow> thrown + HTMLCanvasElement" where
  "drawImage P c src dw dh =
     (if canvas_width src = 0 \<or> canvas_height src = 0 then Inl (Error ''InvalidStateError'')
      else Inr (c\<lparr>bitmap := map (\<lambda>i. sourceOver (scaled P src dw dh i) (bitmap c ! i))
                                [0 ..< length (bitmap c)]\<rparr>))"

text \<open>The body of the loop over \<^verbatim>\<open>data\<close>: \<^verbatim>\<open>if (data[i + 3] > 0)\<close> the pixel's colour is set to white.\<close>

definition whiten :: "rgba \<Rightarrow> rgba" where
  "whiten p = (case p of (r, g, b, a) \<Rightarrow> if a > 0 then (255, 255, 255, a) else (r, g, b, a))"

text \<open>
  Lines 228 to 259 of \<^verbatim>\<open>handleGenerate\<close>: the mask canvas as it is when
  \<^verbatim>\<open>toDataURL\<close> encodes it, or the error thrown on the way.
\<close>

definition composeMask :: "platform \<Rightarrow> editor \<Rightarrow> thrown + HTMLCanvasElement" where
  "composeMask P st =
     (case image st of
        None \<Rightarrow> Inl (Error ''Original image not found'')
      | Some img \<Rightarrow>
          let maskCanvas = createCanvas P (naturalWidth img) (naturalHeight img)
          in if \<not> context2d maskCanvas then Inl (Error ''Could not create mask context'')
             else
               let filled = fillRect maskCanvas (0, 0, 0, 255)
               in case (case at (history st) (historyIndex st) of
                          None \<Rightarrow> Inr filled
                        | Some currentMaskState \<Rightarrow>
                            let tempHistoryCanvas =
                                  createCanvas P (width currentMaskState) (height currentMaskState)
                            in if context2d tempHistoryCanvas
                               then drawImage P filled
                                      (putImageData tempHistoryCanvas currentMaskState)
                                      (canvas_width maskCanvas) (canvas_height maskCanvas)
                               else Inr filled) of
                    Inl e \<Rightarrow> Inl e
                  | Inr drawn \<Rightarrow>
                      (case getImageData drawn of
                         Inl e \<Rightarrow> Inl e
                       | Inr imageData \<Rightarrow>
                           Inr (putImageData drawn
                                  (imageData\<lparr>data := map whiten (data imageData)\<rparr>))))"

text \<open>
  The mask that section 4.4 of the specification describes, for comparison: white where
  the scaled snapshot has ink (non-zero alpha), opaque black elsewhere.
\<close>

definition specifiedMask :: "platform \<Rightarrow> ImageData \<Rightarrow> nat \<Rightarrow> nat \<Rightarrow> rgba list" where
  "specifiedMask P snapshot w h =
     map (\<lambda>i. if alpha (scaled P (putImageData (createCanvas P (width snapshot) (height snapshot))
                                                snapshot) w h i) \<noteq> 0
               then (255, 255, 255, 255) else (0, 0, 0, 255))
         [0 ..< w * h]"

section \<open>The edit orchestrator\<close>

text \<open>
  \<^verbatim>\<open>prompt.trim()\<close>, with the white space and line terminators of JavaScript that fit
  in a byte.
\<close>

definition isWhiteSpace :: "char \<Rightarrow> bool" where
  "isWhiteSpace ch \<longleftrightarrow>
     ch \<in> {CHR 0x09, CHR 0x0A, CHR 0x0B, CHR 0x0C, CHR 0x0D, CHR 0x20, CHR 0xA0}"

definition trim :: "string \<Rightarrow> string" where
  "trim s = rev (dropWhile isWhiteSpace (rev (dropWhile isWhiteSpace s)))"

text \<open>
  The \<^verbatim>\<open>Uint32Array\<close> view of the pixel buffer has one element per pixel, made of its
  four bytes (the red byte lowest on a little-endian machine).
\<close>

definition uint32 :: "rgba \<Rightarrow> 32 word" where
  "uint32 p =
     (case p of (r, g, b, a) \<Rightarrow>
        word_of_nat (unat r + 2 ^ 8 * unat g + 2 ^ 16 * unat b + 2 ^ 24 * unat a))"

definition Uint32Array :: "rgba list \<Rightarrow> 32 word list" where
  "Uint32Array buffer = map uint32 buffer"

definition fileToBase64 :: "platform \<Rightarrow> string \<Rightarrow> thrown + string" where
  "fileToBase64 P file =
     (case readAsDataURL P file of
        Some result \<Rightarrow> Inr result
      | None \<Rightarrow> Inl (NonError ''[object ProgressEvent]''))"

text \<open>
  What one run of \<^verbatim>\<open>handleGenerate\<close> leaves behind: the component's state, the
  arguments of every call of \<^verbatim>\<open>editImageWithMask\<close> it made, and what it handed to
  \<^verbatim>\<open>onEditComplete\<close>. The read of the drawing surface comes before the
  \<^verbatim>\<open>try\<close> block: when it raises, the run ends there and nothing is set.
\<close>

type_synonym submission = "editor \<times> (string \<times> string \<times> string) list \<times> string option"

text \<open>The \<^verbatim>\<open>catch\<close> and \<^verbatim>\<open>finally\<close> blocks.\<close>

definition caught :: "editor \<Rightarrow> thrown \<Rightarrow> editor" where
  "caught st e =
     (let errorMessage = (case e of Error message \<Rightarrow> message
                                  | NonError str \<Rightarrow> ''An unknown error occurred.'')
      in st\<lparr>error := Some errorMessage, isLoading := False\<rparr>)"

definition handleGenerate :: "platform \<Rightarrow> editor \<Rightarrow> submission" where
  "handleGenerate P st =
     (if trim (prompt st) = []
      then (st\<lparr>error := Some ''Please enter a description for the edit.''\<rparr>, [], None)
      else case drawingCanvasRef st of
        None \<Rightarrow> (st, [], None)
      | Some drawingCanvas \<Rightarrow>
          if \<not> context2d drawingCanvas then (st, [], None)
          else case getImageData drawingCanvas of
            Inl e \<Rightarrow> (st, [], None)
          | Inr drawingData \<Rightarrow>
            let pixelBuffer = Uint32Array (data drawingData)
            in if \<not> list_ex (\<lambda>color. color \<noteq> 0) pixelBuffer
               then (st\<lparr>error := Some ''Please draw a mask on the image to indicate the area to be edited.''\<rparr>,
                     [], None)
               else
                 let st1 = st\<lparr>error := None, isLoading := True\<rparr>
                 in case composeMask P st1 of
                      Inl e \<Rightarrow> (caught st1 e, [], None)
                    | Inr maskCanvas \<Rightarrow>
                        let maskBase64 = toDataURL P maskCanvas
                        in case fileToBase64 P (imageFile st1) of
                             Inl e \<Rightarrow> (caught st1 e, [], None)
                           | Inr originalImageBase64 \<Rightarrow>
                               (case editImageWithMask P originalImageBase64 maskBase64 (prompt st1) of
                                  Inl e \<Rightarrow>
                                    (caught st1 e,
                                     [(originalImageBase64, maskBase64, prompt st1)], None)
                                | Inr result \<Rightarrow>
                                    (st1\<lparr>isLoading := False\<rparr>,
                                     [(originalImageBase64, maskBase64, prompt st1)],
                                     Some result)))"

section \<open>The cursor invariant and example inputs\<close>

text \<open>The cursor is a valid index into the history.\<close>

definition cursor_ok :: "editor \<Rightarrow> bool" where
  "cursor_ok st \<longleftrightarrow> 0 \<le> historyIndex st \<and> historyIndex st < int (length (history st))"

text \<open>
  A small platform to run the model on: the rasteriser paints (or erases) the first pixel
  of the surface, the resampling filter is nearest-neighbour, every canvas yields a
  context, and the service answers every request with a candidate that holds safety
  ratings and no content.
\<close>

definition ink :: rgba where
  "ink = (255, 0, 255, 179)"

definition blockedResponse :: GenerateContentResponse where
  "blockedResponse = GenerateContentResponse
     (Some [Candidate None (Some [SafetyRating ''HARM_CATEGORY_HARASSMENT'' ''HIGH''])]) None"

text \<open>
  The answer to a prompt that the service blocks: no candidate, the block reason and the
  ratings in \<^verbatim>\<open>promptFeedback\<close>.
\<close>

definition promptBlockedResponse :: GenerateContentResponse where
  "promptBlockedResponse = GenerateContentResponse None
     (Some (PromptFeedback (Some ''SAFETY'')
        (Some [SafetyRating ''HARM_CATEGORY_HARASSMENT'' ''HIGH''])))"

definition examplePlatform :: platform where
  "examplePlatform =
     \<lparr>rasterStroke = (\<lambda>c. (bitmap c)[0 := (if globalCompositeOperation c = source_over
                                            then sourceOver ink (bitmap c ! 0) else transparent)]),
      scaled = (\<lambda>src dw dh i.
                  bitmap src ! ((i div dw) * canvas_height src div dh * canvas_width src
                                + (i mod dw) * canvas_width src div dw)),
      createContext = (\<lambda>w h. True),
      toDataURL = (\<lambda>c. map (\<lambda>p. if p = (255, 255, 255, 255) then CHR ''1'' else CHR ''0'')
                           (bitmap c)),
      readAsDataURL = (\<lambda>file. Some (''data:image/png;base64,'' @ file)),
      API_KEY = Some ''k'',
      generateContent = (\<lambda>req. Inr blockedResponse),
      JSON_stringify = (\<lambda>rs. concat (map (\<lambda>r. category r @ '':'' @ probability r) rs))\<rparr>"

text \<open>A 2 by 1 image just loaded: a blank surface and its snapshot as the only history entry.\<close>

definition blankSurface :: HTMLCanvasElement where
  "blankSurface = \<lparr>canvas_width = 2, canvas_height = 1, bitmap = [transparent, transparent],
      context2d = True, globalCompositeOperation = source_over, path = [],
      strokeStyle = ''#000000'', lineWidth = 1, lineCap = ''butt'', lineJoin = ''miter''\<rparr>"

definition loaded :: editor where
  "loaded = \<lparr>imageFile = ''photo'', drawingCanvasRef = Some blankSurface, isDrawing = False,
      brushSize = 40, prompt = ''make the sky orange'', isLoading = False, error = None,
      tool = brush, isMaskVisible = True, history = [pixelsOf blankSurface],
      historyIndex = 0, image = Some \<lparr>naturalWidth = 2, naturalHeight = 1\<rparr>\<rparr>"

text \<open>The same session after one brush stroke that inked the left pixel.\<close>

definition inkedSurface :: HTMLCanvasElement where
  "inkedSurface = \<lparr>canvas_width = 2, canvas_height = 1, bitmap = [ink, transparent],
      context2d = True, globalCompositeOperation = source_over, path = [(0, 0), (1, 0), (0, 0)],
      strokeStyle = ''rgba(255, 0, 255, 0.7)'', lineWidth = 40, lineCap = ''round'',
      lineJoin = ''round''\<rparr>"

definition paintedOnce :: editor where
  "paintedOnce = loaded\<lparr>drawingCanvasRef := Some inkedSurface,
      history := [pixelsOf blankSurface, pixelsOf inkedSurface], historyIndex := 1\<rparr>"

text \<open>The same platform with a service that blocks the prompt.\<close>

definition promptBlockingPlatform :: platform where
  "promptBlockingPlatform = examplePlatform\<lparr>generateContent := (\<lambda>req. Inr promptBlockedResponse)\<rparr>"

text \<open>
  A 5000 by 1 image in a container 1000 wide: the display height \<open>1000 / 5000\<close> is
  truncated to 0 when it is assigned to the canvas, so the drawing surface is 1000 by 0.
  The read of the surface at load raised, so the history is still empty.
\<close>

definition flatSurface :: HTMLCanvasElement where
  "flatSurface = \<lparr>canvas_width = 1000, canvas_height = 0, bitmap = [],
      context2d = True, globalCompositeOperation = source_over, path = [],
      strokeStyle = ''#000000'', lineWidth = 1, lineCap = ''butt'', lineJoin = ''miter''\<rparr>"

definition flatSession :: editor where
  "flatSession = \<lparr>imageFile = ''strip'', drawingCanvasRef = Some flatSurface, isDrawing = False,
      brushSize = 40, prompt = ''make the sky orange'', isLoading = False, error = None,
      tool = brush, isMaskVisible = True, history = [], historyIndex = - 1,
      image = Some \<lparr>naturalWidth = 5000, naturalHeight = 1\<rparr>\<rparr>"

definition whiteMask :: HTMLCanvasElement where
  "whiteMask = \<lparr>canvas_width = 2, canvas_height = 1,
      bitmap = [(255, 255, 255, 255), (255, 255, 255, 255)],
      context2d = True, globalCompositeOperation = source_over, path = [],
      strokeStyle = ''#000000'', lineWidth = 1, lineCap = ''butt'', lineJoin = ''miter''\<rparr>"

lemmas example_defs = examplePlatform_def blankSurface_def inkedSurface_def loaded_def
  paintedOnce_def ink_def transparent_def getImageData_def pixelsOf_def

section \<open>The raster history: push, undo, clear\<close>

lemma splice_take: "- 1 \<le> i \<Longrightarrow> splice xs (i + 1) = take (nat (i + 1)) xs"
  by (auto simp: splice_def Let_def min_def)

text \<open>A surface that can be read: mounted with a 2D context, and of positive area.\<close>

lemma getImageData_positive:
  "0 < canvas_width c \<Longrightarrow> 0 < canvas_height c \<Longrightarrow> getImageData c = Inr (pixelsOf c)"
  by (simp add: getImageData_def)

lemma saveToHistory_mounted:
  assumes "drawingCanvasRef st = Some canvas" and "context2d canvas"
    and "0 < canvas_width canvas" and "0 < canvas_height canvas"
  shows "saveToHistory st =
           st\<lparr>history := splice (history st) (historyIndex st + 1) @ [pixelsOf canvas],
              historyIndex := int (length (splice (history st) (historyIndex st + 1)))\<rparr>"
  using assms by (simp add: saveToHistory_def getImageData_positive Let_def)

text \<open>
  The cursor starts at \<open>-1\<close> and no handler takes it below that, so \<open>-1 \<le> historyIndex\<close>
  holds in every state the component reaches.
\<close>

lemma cursor_lower_bound:
  assumes "- 1 \<le> historyIndex st"
  shows "- 1 \<le> historyIndex (saveToHistory st)"
    and "- 1 \<le> historyIndex (handleUndo st)"
    and "- 1 \<le> historyIndex (clearMask st)"
  using assms
  by (auto simp: saveToHistory_def handleUndo_def clearMask_def Let_def
      split: option.splits sum.splits)

text \<open>
  \<^bold>\<open>C5.\<close> Whatever the history and wherever the cursor stands (\<open>-1\<close> when the history
  is empty, an index otherwise), \<^verbatim>\<open>saveToHistory\<close> on a drawing surface that can be
  read (mounted, of positive area) keeps exactly the snapshots up to and including the
  cursor, appends the snapshot of the surface, and leaves the cursor on the new last
  index: nothing beyond the old cursor survives a push, so an abandoned branch cannot be
  redone.
\<close>

theorem saveToHistory_discards_redo:
  assumes "drawingCanvasRef st = Some canvas" and "context2d canvas"
    and "0 < canvas_width canvas" and "0 < canvas_height canvas"
    and "- 1 \<le> historyIndex st"
  shows "history (saveToHistory st)
           = take (nat (historyIndex st + 1)) (history st) @ [pixelsOf canvas]
         \<and> historyIndex (saveToHistory st) = int (length (history (saveToHistory st))) - 1"
  using assms by (simp add: saveToHistory_mounted splice_take)

theorem saveToHistory_discards_redo_witness:
  "drawingCanvasRef (paintedOnce\<lparr>historyIndex := 0\<rparr>) = Some inkedSurface
   \<and> context2d inkedSurface
   \<and> 0 < canvas_width inkedSurface \<and> 0 < canvas_height inkedSurface
   \<and> - 1 \<le> historyIndex (paintedOnce\<lparr>historyIndex := 0\<rparr>)
   \<and> history (saveToHistory (paintedOnce\<lparr>historyIndex := 0\<rparr>))
        = [pixelsOf blankSurface, pixelsOf inkedSurface]
   \<and> historyIndex (saveToHistory (paintedOnce\<lparr>historyIndex := 0\<rparr>)) = 1"
proof -
  have h: "drawingCanvasRef (paintedOnce\<lparr>historyIndex := 0\<rparr>) = Some inkedSurface"
    "context2d inkedSurface" "0 < canvas_width inkedSurface" "0 < canvas_height inkedSurface"
    "- 1 \<le> historyIndex (paintedOnce\<lparr>historyIndex := 0\<rparr>)"
    by (simp_all add: paintedOnce_def inkedSurface_def)
  from saveToHistory_discards_redo[OF h] h show ?thesis
    by (simp add: paintedOnce_def loaded_def)
qed

text \<open>The first push on an empty history makes the cursor a valid index.\<close>

lemma first_push_cursor_ok:
  assumes "drawingCanvasRef st = Some canvas" and "context2d canvas"
    and "0 < canvas_width canvas" and "0 < canvas_height canvas"
    and "history st = []"
  shows "cursor_ok (saveToHistory st)"
  using assms by (simp add: saveToHistory_mounted splice_def cursor_ok_def)

text \<open>
  \<^bold>\<open>C6.\<close> Once the cursor is a valid index (which needs at least one snapshot), a
  push, an undo and a clear each leave it a valid index: never negative, never beyond
  the last snapshot. This holds in every state, the surface mounted or not, readable or
  not.
\<close>

theorem cursor_valid_preserved:
  assumes "cursor_ok st"
  shows "cursor_ok (saveToHistory st) \<and> cursor_ok (handleUndo st) \<and> cursor_ok (clearMask st)"
proof (intro conjI)
  show "cursor_ok (saveToHistory st)"
    using assms
    by (auto simp: saveToHistory_def cursor_ok_def Let_def split: option.splits sum.splits)
  show "cursor_ok (handleUndo st)"
    using assms by (auto simp: handleUndo_def cursor_ok_def Let_def split: option.splits)
  show "cursor_ok (clearMask st)"
    using assms
    by (auto simp: clearMask_def cursor_ok_def Let_def saveToHistory_def
        split: option.splits sum.splits)
qed

theorem cursor_valid_preserved_witness:
  "cursor_ok paintedOnce \<and> cursor_ok (saveToHistory paintedOnce)
   \<and> cursor_ok (handleUndo paintedOnce) \<and> cursor_ok (clearMask paintedOnce)"
proof -
  have h: "cursor_ok paintedOnce" by (simp add: cursor_ok_def paintedOnce_def)
  from cursor_valid_preserved[OF h] h show ?thesis by simp
qed

section \<open>Strokes\<close>

lemma startDrawing_mounted:
  assumes "drawingCanvasRef st = Some canvas" and "context2d canvas"
  shows "\<exists>c. drawingCanvasRef (startDrawing st pos) = Some c \<and> context2d c
             \<and> pixelsOf c = pixelsOf canvas"
    and "isDrawing (startDrawing st pos)"
    and "history (startDrawing st pos) = history st"
    and "historyIndex (startDrawing st pos) = historyIndex st"
  using assms by (simp_all add: startDrawing_def pixelsOf_def)

lemma pixelsOf_size:
  "pixelsOf c = pixelsOf c' \<Longrightarrow> canvas_width c = canvas_width c' \<and> canvas_height c = canvas_height c'"
  by (simp add: pixelsOf_def)

lemma draw_mounted:
  assumes "drawingCanvasRef st = Some canvas" and "context2d canvas"
  shows "\<exists>c. drawingCanvasRef (draw P st pos) = Some c \<and> context2d c
             \<and> canvas_width c = canvas_width canvas \<and> canvas_height c = canvas_height canvas"
    and "isDrawing (draw P st pos) = isDrawing st"
    and "history (draw P st pos) = history st"
    and "historyIndex (draw P st pos) = historyIndex st"
  using assms by (simp_all add: draw_def Let_def)

lemma draws_mounted:
  assumes "drawingCanvasRef st = Some canvas" and "context2d canvas"
  shows "(\<exists>c. drawingCanvasRef (foldl (draw P) st moves) = Some c \<and> context2d c
             \<and> canvas_width c = canvas_width canvas \<and> canvas_height c = canvas_height canvas)
         \<and> isDrawing (foldl (draw P) st moves) = isDrawing st
         \<and> history (foldl (draw P) st moves) = history st
         \<and> historyIndex (foldl (draw P) st moves) = historyIndex st"
  using assms
proof (induction moves arbitrary: st canvas)
  case Nil
  then show ?case by simp
next
  case (Cons m moves)
  from draw_mounted(1)[OF Cons.prems] obtain c
    where c: "drawingCanvasRef (draw P st m) = Some c" "context2d c"
      and s: "canvas_width c = canvas_width canvas" "canvas_height c = canvas_height canvas"
    by blast
  from Cons.IH[OF c] draw_mounted(2-4)[OF Cons.prems] s
  show ?case by simp
qed

lemma stopDrawing_mounted:
  assumes "drawingCanvasRef st = Some canvas" and "context2d canvas"
    and "0 < canvas_width canvas" and "0 < canvas_height canvas"
    and "isDrawing st" and "- 1 \<le> historyIndex st"
  shows "history (stopDrawing st)
           = take (nat (historyIndex st + 1)) (history st) @ [pixelsOf canvas]"
    and "historyIndex (stopDrawing st) = int (length (history (stopDrawing st))) - 1"
    and "\<exists>c. drawingCanvasRef (stopDrawing st) = Some c \<and> context2d c
            \<and> canvas_width c = canvas_width canvas \<and> canvas_height c = canvas_height canvas"
  using assms
  by (simp_all add: stopDrawing_def Let_def closePath_def saveToHistory_def getImageData_def
      pixelsOf_def splice_take)

text \<open>
  \<^bold>\<open>C10.\<close> On a drawing surface that can be read, a pointer-down followed at once by
  a pointer-up, with no move in between, paints nothing and still pushes: the snapshot
  of the surface as it was is appended after the cursor and becomes the current one,
  and the cursor advances by one.
\<close>

theorem empty_stroke_pushes_snapshot:
  assumes "drawingCanvasRef st = Some canvas" and "context2d canvas"
    and "0 < canvas_width canvas" and "0 < canvas_height canvas"
    and "- 1 \<le> historyIndex st" and "historyIndex st < int (length (history st))"
  shows "history (stopDrawing (startDrawing st pos))
           = take (nat (historyIndex st + 1)) (history st) @ [pixelsOf canvas]
         \<and> historyIndex (stopDrawing (startDrawing st pos)) = historyIndex st + 1
         \<and> current (stopDrawing (startDrawing st pos)) = Some (pixelsOf canvas)"
proof -
  from startDrawing_mounted[OF assms(1,2), of pos] obtain c
    where c: "drawingCanvasRef (startDrawing st pos) = Some c" "context2d c"
      "pixelsOf c = pixelsOf canvas"
    and d: "isDrawing (startDrawing st pos)"
    and h: "history (startDrawing st pos) = history st"
      "historyIndex (startDrawing st pos) = historyIndex st"
    by blast
  from pixelsOf_size[OF c(3)] assms(3,4)
  have a: "0 < canvas_width c" "0 < canvas_height c" by simp_all
  from assms(5) h have "- 1 \<le> historyIndex (startDrawing st pos)" by simp
  from stopDrawing_mounted(1,2)[OF c(1,2) a d this] c(3) h assms(5,6)
  show ?thesis by (simp add: current_def at_def nth_append)
qed

theorem empty_stroke_pushes_snapshot_witness:
  "drawingCanvasRef loaded = Some blankSurface \<and> context2d blankSurface
   \<and> 0 < canvas_width blankSurface \<and> 0 < canvas_height blankSurface
   \<and> - 1 \<le> historyIndex loaded \<and> historyIndex loaded < int (length (history loaded))
   \<and> history (stopDrawing (startDrawing loaded (0, 0)))
        = [pixelsOf blankSurface, pixelsOf blankSurface]
   \<and> historyIndex (stopDrawing (startDrawing loaded (0, 0))) = 1
   \<and> current (stopDrawing (startDrawing loaded (0, 0))) = Some (pixelsOf blankSurface)"
proof -
  have h: "drawingCanvasRef loaded = Some blankSurface" "context2d blankSurface"
    "0 < canvas_width blankSurface" "0 < canvas_height blankSurface"
    "- 1 \<le> historyIndex loaded" "historyIndex loaded < int (length (history loaded))"
    by (simp_all add: loaded_def blankSurface_def)
  from empty_stroke_pushes_snapshot[OF h, of "(0, 0)"] h show ?thesis
    by (simp add: loaded_def)
qed

lemma completeStroke_push:
  assumes "drawingCanvasRef st = Some canvas" and "context2d canvas"
    and "0 < canvas_width canvas" and "0 < canvas_height canvas"
    and "history st = b # rest" and "historyIndex st = int (length rest)"
  shows "\<exists>c snap. drawingCanvasRef (completeStroke P st s) = Some c \<and> context2d c
            \<and> 0 < canvas_width c \<and> 0 < canvas_height c
            \<and> history (completeStroke P st s) = b # rest @ [snap]
            \<and> historyIndex (completeStroke P st s) = int (length rest) + 1"
proof -
  obtain t diameter down moves where s: "s = (t, diameter, down, moves)"
    by (cases s) auto
  let ?st0 = "st\<lparr>tool := t, brushSize := diameter\<rparr>"
  let ?st1 = "startDrawing ?st0 down"
  let ?st2 = "foldl (draw P) ?st1 moves"
  have m0: "drawingCanvasRef ?st0 = Some canvas" using assms(1) by simp
  from startDrawing_mounted[OF m0 assms(2), of down] obtain c1
    where c1: "drawingCanvasRef ?st1 = Some c1" "context2d c1"
    and p1: "pixelsOf c1 = pixelsOf canvas"
    and d1: "isDrawing ?st1"
    and h1: "history ?st1 = history st" "historyIndex ?st1 = historyIndex st"
    by auto
  from draws_mounted[OF c1, of P moves] obtain c2
    where c2: "drawingCanvasRef ?st2 = Some c2" "context2d c2"
    and s2: "canvas_width c2 = canvas_width c1" "canvas_height c2 = canvas_height c1"
    and d2: "isDrawing ?st2"
    and h2: "history ?st2 = history st" "historyIndex ?st2 = historyIndex st"
    using d1 h1 by auto
  from pixelsOf_size[OF p1] s2 assms(3,4)
  have a2: "0 < canvas_width c2" "0 < canvas_height c2" by simp_all
  have i2: "- 1 \<le> historyIndex ?st2" using h2 assms(6) by simp
  from stopDrawing_mounted(3)[OF c2 a2 d2 i2] a2
  have "\<exists>c. drawingCanvasRef (stopDrawing ?st2) = Some c \<and> context2d c
            \<and> 0 < canvas_width c \<and> 0 < canvas_height c"
    by auto
  moreover from stopDrawing_mounted(1,2)[OF c2 a2 d2 i2] h2 assms(5,6)
  have "history (stopDrawing ?st2) = b # rest @ [pixelsOf c2]"
    and "historyIndex (stopDrawing ?st2) = int (length rest) + 1"
    by simp_all
  ultimately show ?thesis by (auto simp: completeStroke_def s)
qed

lemma strokes_push:
  assumes "drawingCanvasRef st = Some canvas" and "context2d canvas"
    and "0 < canvas_width canvas" and "0 < canvas_height canvas"
    and "history st = b # rest" and "historyIndex st = int (length rest)"
  shows "\<exists>rest'. history (foldl (completeStroke P) st ss) = b # rest'
            \<and> historyIndex (foldl (completeStroke P) st ss) = int (length rest')
            \<and> length rest' = length rest + length ss"
  using assms
proof (induction ss arbitrary: st canvas rest)
  case Nil
  then show ?case by simp
next
  case (Cons s ss)
  from completeStroke_push[OF Cons.prems, of P s] obtain c snap
    where c: "drawingCanvasRef (completeStroke P st s) = Some c" "context2d c"
      "0 < canvas_width c" "0 < canvas_height c"
    and h: "history (completeStroke P st s) = b # (rest @ [snap])"
      "historyIndex (completeStroke P st s) = int (length (rest @ [snap]))"
    by auto
  from Cons.IH[OF c h] show ?case by auto
qed

lemma handleUndo_history: "history (handleUndo st) = history st"
  by (simp add: handleUndo_def Let_def split: option.splits)

lemma handleUndo_index:
  "historyIndex (handleUndo st)
     = (if historyIndex st > 0 then historyIndex st - 1 else historyIndex st)"
  by (simp add: handleUndo_def Let_def split: option.splits)

lemma undos_history: "history ((handleUndo ^^ k) st) = history st"
  by (induction k) (simp_all add: handleUndo_history)

lemma undos_index:
  "0 \<le> historyIndex st \<Longrightarrow> historyIndex ((handleUndo ^^ k) st) = max 0 (historyIndex st - int k)"
  by (induction k) (auto simp: handleUndo_index)

text \<open>
  \<^bold>\<open>C4.\<close> From the initialised history (one snapshot, the cursor on it) and a drawing
  surface that can be read, after any sequence of completed strokes, as many undos as
  there were strokes make the initial snapshot the current one again; and after any
  number of undos the cursor is not below 0.
\<close>

theorem undo_all_strokes:
  assumes "drawingCanvasRef st = Some canvas" and "context2d canvas"
    and "0 < canvas_width canvas" and "0 < canvas_height canvas"
    and "history st = [blank]" and "historyIndex st = 0"
  shows "current ((handleUndo ^^ length ss) (foldl (completeStroke P) st ss)) = Some blank
         \<and> (\<forall>k. 0 \<le> historyIndex ((handleUndo ^^ k) (foldl (completeStroke P) st ss)))"
proof -
  let ?st' = "foldl (completeStroke P) st ss"
  from strokes_push[OF assms(1-4), of blank "[]" P ss] assms(5,6) obtain rest'
    where h: "history ?st' = blank # rest'" "historyIndex ?st' = int (length rest')"
      "length rest' = length ss"
    by auto
  have nonneg: "0 \<le> historyIndex ?st'" using h(2) by simp
  have "historyIndex ((handleUndo ^^ length ss) ?st') = 0"
    using undos_index[OF nonneg, of "length ss"] h by simp
  moreover have "history ((handleUndo ^^ length ss) ?st') = blank # rest'"
    using undos_history h(1) by simp
  ultimately have "current ((handleUndo ^^ length ss) ?st') = Some blank"
    by (simp add: current_def at_def)
  moreover have "\<forall>k. 0 \<le> historyIndex ((handleUndo ^^ k) ?st')"
    using undos_index[OF nonneg] by simp
  ultimately show ?thesis by simp
qed

theorem undo_all_strokes_witness:
  "drawingCanvasRef loaded = Some blankSurface \<and> context2d blankSurface
   \<and> 0 < canvas_width blankSurface \<and> 0 < canvas_height blankSurface
   \<and> history loaded = [pixelsOf blankSurface] \<and> historyIndex loaded = 0
   \<and> current ((handleUndo ^^ 2)
        (foldl (completeStroke examplePlatform) loaded
           [(brush, 40, (0, 0), [(1, 0)]), (eraser, 150, (1, 0), [])]))
       = Some (pixelsOf blankSurface)
   \<and> 0 \<le> historyIndex ((handleUndo ^^ 3)
        (foldl (completeStroke examplePlatform) loaded
           [(brush, 40, (0, 0), [(1, 0)]), (eraser, 150, (1, 0), [])]))"
proof -
  have h: "drawingCanvasRef loaded = Some blankSurface" "context2d blankSurface"
    "0 < canvas_width blankSurface" "0 < canvas_height blankSurface"
    "history loaded = [pixelsOf blankSurface]" "historyIndex loaded = 0"
    by (simp_all add: loaded_def blankSurface_def)
  let ?ss = "[(brush, 40, (0, 0), [(1, 0)]), (eraser, 150, (1, 0), [])] :: stroke list"
  note u = undo_all_strokes[OF h, where P = examplePlatform and ss = ?ss]
  have l: "length ?ss = 2" by simp
  from u have "current ((handleUndo ^^ length ?ss)
      (foldl (completeStroke examplePlatform) loaded ?ss)) = Some (pixelsOf blankSurface)"
    by (rule conjunct1)
  then have a: "current ((handleUndo ^^ 2)
      (foldl (completeStroke examplePlatform) loaded ?ss)) = Some (pixelsOf blankSurface)"
    by (simp only: l)
  from u have b: "0 \<le> historyIndex ((handleUndo ^^ 3)
      (foldl (completeStroke examplePlatform) loaded ?ss))"
    by blast
  from h a b show ?thesis by blast
qed

section \<open>Clearing the mask\<close>

lemma paintedOnce_reached:
  "completeStroke examplePlatform loaded (brush, 40, (0, 0), [(1, 0)]) = paintedOnce"
  by (simp add: example_defs completeStroke_def startDrawing_def draw_def stopDrawing_def
      closePath_def saveToHistory_def splice_def sourceOver_def Let_def)

text \<open>
  \<^bold>\<open>C2\<close> as the specification has it: after at least one stroke, clear and then undo
  bring back the snapshot that was current before the clear. It fails after a single
  brush stroke: before the clear the inked snapshot is current, after clear and undo the
  blank one is.
\<close>

theorem clear_then_undo_counterexample:
  "completeStroke examplePlatform loaded (brush, 40, (0, 0), [(1, 0)]) = paintedOnce
   \<and> current paintedOnce = Some (pixelsOf inkedSurface)
   \<and> current (handleUndo (clearMask paintedOnce)) = Some (pixelsOf blankSurface)
   \<and> pixelsOf inkedSurface \<noteq> pixelsOf blankSurface"
  by (simp add: paintedOnce_reached)
     (simp add: example_defs current_def at_def clearMask_def handleUndo_def saveToHistory_def
        splice_def Let_def putImageData_def clearRect_def upt_rec)

text \<open>
  \<^bold>\<open>C2\<close>, amended. \<^verbatim>\<open>clearMask\<close> moves the cursor to 0 before it saves, so the push
  discards every later snapshot, the one current before the clear among them. With a
  drawing surface that can be read and a non-empty history, clear and then undo leave the
  cursor on 0 with the first snapshot of the history current, and the history holds that
  snapshot and the cleared surface only.
\<close>

theorem clear_then_undo_restores_first:
  assumes "drawingCanvasRef st = Some canvas" and "context2d canvas"
    and "0 < canvas_width canvas" and "0 < canvas_height canvas"
    and "history st = first # rest"
  shows "current (handleUndo (clearMask st)) = Some first
         \<and> historyIndex (handleUndo (clearMask st)) = 0
         \<and> history (handleUndo (clearMask st))
             = [first, pixelsOf (putImageData (clearRect canvas) first)]"
  using assms
  by (simp add: clearMask_def handleUndo_def saveToHistory_def Let_def at_def current_def
      splice_def putImageData_def clearRect_def getImageData_def pixelsOf_def)

theorem clear_then_undo_restores_first_witness:
  "drawingCanvasRef paintedOnce = Some inkedSurface \<and> context2d inkedSurface
   \<and> 0 < canvas_width inkedSurface \<and> 0 < canvas_height inkedSurface
   \<and> history paintedOnce = [pixelsOf blankSurface, pixelsOf inkedSurface]
   \<and> current (handleUndo (clearMask paintedOnce)) = Some (pixelsOf blankSurface)
   \<and> historyIndex (handleUndo (clearMask paintedOnce)) = 0
   \<and> history (handleUndo (clearMask paintedOnce))
        = [pixelsOf blankSurface, pixelsOf blankSurface]"
proof -
  have h: "drawingCanvasRef paintedOnce = Some inkedSurface" "context2d inkedSurface"
    "0 < canvas_width inkedSurface" "0 < canvas_height inkedSurface"
    "history paintedOnce = [pixelsOf blankSurface, pixelsOf inkedSurface]"
    by (simp_all add: paintedOnce_def inkedSurface_def loaded_def)
  have c: "pixelsOf (putImageData (clearRect inkedSurface) (pixelsOf blankSurface))
             = pixelsOf blankSurface"
    by (simp add: example_defs putImageData_def clearRect_def Let_def upt_rec)
  from clear_then_undo_restores_first[OF h] h c show ?thesis by simp
qed

section \<open>Validation of the mask at submit time\<close>

lemma word32_of_small_nat: "n < 2 ^ 32 \<Longrightarrow> (word_of_nat n :: 32 word) = 0 \<longleftrightarrow> n = 0"
proof
  assume lt: "n < 2 ^ 32" and "(word_of_nat n :: 32 word) = 0"
  then have "2 ^ 32 dvd n" by (simp add: word_of_nat_eq_0_iff)
  with lt show "n = 0" by (auto dest: dvd_imp_le)
qed simp

text \<open>An element of the 32-bit view is zero exactly when all four bytes of the pixel are.\<close>

lemma uint32_eq_0_iff: "uint32 p = 0 \<longleftrightarrow> p = transparent"
proof -
  obtain r g b a where p: "p = (r, g, b, a)" by (cases p) auto
  define n where "n = unat r + 2 ^ 8 * unat g + 2 ^ 16 * unat b + 2 ^ 24 * unat a"
  have "unat r < 2 ^ 8" and "unat g < 2 ^ 8" and "unat b < 2 ^ 8" and "unat a < 2 ^ 8"
    using unsigned_less[of r] unsigned_less[of g] unsigned_less[of b] unsigned_less[of a]
    by simp_all
  then have lt: "n < 2 ^ 32" by (simp add: n_def)
  have "uint32 p = word_of_nat n" by (simp add: uint32_def p n_def)
  then have "uint32 p = 0 \<longleftrightarrow> n = 0" using word32_of_small_nat[OF lt] by simp
  also have "\<dots> \<longleftrightarrow> p = transparent"
    by (auto simp: n_def p transparent_def unat_eq_0)
  finally show ?thesis .
qed

lemma list_ex_Uint32Array:
  "list_ex (\<lambda>color. color \<noteq> 0) (Uint32Array buffer) \<longleftrightarrow> (\<exists>p\<in>set buffer. p \<noteq> transparent)"
  by (simp add: Uint32Array_def list_ex_iff uint32_eq_0_iff)

text \<open>
  On a surface of positive area the check works: when every pixel of it is transparent
  (a canvas reads a transparent pixel as four zero bytes), \<^verbatim>\<open>handleGenerate\<close>
  changes nothing but the error message, which it sets to one of its two validation
  messages (the one about the prompt when the prompt is blank as well), never calls
  \<^verbatim>\<open>editImageWithMask\<close> and hands nothing to \<^verbatim>\<open>onEditComplete\<close>.
\<close>

lemma transparent_surface_rejected:
  assumes "drawingCanvasRef st = Some canvas" and "context2d canvas"
    and "0 < canvas_width canvas" and "0 < canvas_height canvas"
    and "\<forall>p\<in>set (bitmap canvas). p = transparent"
  shows "handleGenerate P st =
           (st\<lparr>error := Some (if trim (prompt st) = []
                               then ''Please enter a description for the edit.''
                               else ''Please draw a mask on the image to indicate the area to be edited.'')\<rparr>,
            [], None)"
  using assms
  by (simp add: handleGenerate_def Let_def list_ex_Uint32Array getImageData_def pixelsOf_def)

text \<open>
  \<^bold>\<open>C3.\<close> The specification asks for a validation error in every state whose mask
  surface holds no pixel that is not transparent. The source reads the surface with
  \<^verbatim>\<open>getImageData\<close> before its check and outside its \<^verbatim>\<open>try\<close> block. On a
  mounted surface of width or height 0, which holds no pixel at all, that read raises:
  with a prompt that is not blank the run ends there, and it leaves the state as it was,
  so no error message is set; it makes no call and delivers nothing.
\<close>

theorem flat_surface_no_validation_error:
  assumes "trim (prompt st) \<noteq> []"
    and "drawingCanvasRef st = Some canvas" and "context2d canvas"
    and "canvas_width canvas = 0 \<or> canvas_height canvas = 0"
  shows "handleGenerate P st = (st, [], None)"
  using assms by (auto simp: handleGenerate_def getImageData_def)

theorem flat_surface_no_validation_error_witness:
  "trim (prompt flatSession) \<noteq> []
   \<and> drawingCanvasRef flatSession = Some flatSurface \<and> context2d flatSurface
   \<and> canvas_height flatSurface = 0 \<and> bitmap flatSurface = []
   \<and> handleGenerate examplePlatform flatSession = (flatSession, [], None)
   \<and> error flatSession = None"
proof -
  have t: "trim (prompt flatSession) \<noteq> []"
    by (simp add: flatSession_def trim_def isWhiteSpace_def)
  have h: "drawingCanvasRef flatSession = Some flatSurface" "context2d flatSurface"
    by (simp_all add: flatSession_def flatSurface_def)
  have z: "canvas_height flatSurface = 0" "bitmap flatSurface = []"
    by (simp_all add: flatSurface_def)
  then have a: "canvas_width flatSurface = 0 \<or> canvas_height flatSurface = 0" by simp
  have e: "error flatSession = None" by (simp add: flatSession_def)
  from flat_surface_no_validation_error[OF t h a, of examplePlatform] t h z e
  show ?thesis by simp
qed

section \<open>The mask that is submitted\<close>

lemma sourceOver_opaque: "alpha (sourceOver src (r, g, b, 255)) = 255"
proof -
  obtain rs gs bs sa where s: "src = (rs, gs, bs, sa)" by (cases src) auto
  have "unat sa < 2 ^ 8" using unsigned_less[of sa] by simp
  then have "unat sa + 255 * (255 - unat sa) div 255 = 255" by simp
  then show ?thesis by (simp add: sourceOver_def s alpha_def Let_def)
qed

lemma whiten_opaque: "alpha p = 255 \<Longrightarrow> whiten p = (255, 255, 255, 255)"
  by (cases p) (simp add: whiten_def alpha_def)

lemma putImageData_whole:
  assumes "canvas_width c = width img" and "length (bitmap c) = length (data img)"
    and "length (data img) = width img * height img"
  shows "bitmap (putImageData c img) = data img"
proof (rule nth_equalityI)
  show "length (bitmap (putImageData c img)) = length (data img)"
    using assms by (simp add: putImageData_def)
next
  fix i assume "i < length (bitmap (putImageData c img))"
  then have i: "i < width img * height img" using assms by (simp add: putImageData_def)
  then have w: "0 < width img" by (cases "width img") auto
  have x: "i mod width img < width img" using w by simp
  have y: "i div width img < height img"
    using i w by (simp add: less_mult_imp_div_less mult.commute)
  have "i div width img * width img + i mod width img = i" by simp
  with i x y assms show "bitmap (putImageData c img) ! i = data img ! i"
    by (simp add: putImageData_def Let_def)
qed

lemma fillRect_black:
  "bitmap (fillRect c (0, 0, 0, 255)) = replicate (length (bitmap c)) (0, 0, 0, 255)"
proof -
  have "sourceOver (0, 0, 0, 255) p = (0, 0, 0, 255)" for p
    by (cases p) (simp add: sourceOver_def Let_def)
  then have "map (sourceOver (0, 0, 0, 255)) ps = replicate (length ps) (0, 0, 0, 255)" for ps
    by (induction ps) simp_all
  then show ?thesis by (simp add: fillRect_def)
qed

text \<open>Whatever is drawn onto an opaque surface, the surface stays opaque.\<close>

lemma drawImage_opaque:
  assumes "\<forall>p\<in>set (bitmap c). alpha p = 255" and "drawImage P c src dw dh = Inr d"
  shows "\<forall>p\<in>set (bitmap d). alpha p = 255"
proof -
  have "alpha (sourceOver s (bitmap c ! i)) = 255" if "i < length (bitmap c)" for s i
  proof -
    from that assms(1) have a: "alpha (bitmap c ! i) = 255" by simp
    obtain r g b al where q: "bitmap c ! i = (r, g, b, al)" by (cases "bitmap c ! i") auto
    with a have "al = 255" by (simp add: alpha_def)
    with q show ?thesis by (simp add: sourceOver_opaque)
  qed
  note opaque = this
  from assms(2)
  have d: "d = c\<lparr>bitmap := map (\<lambda>i. sourceOver (scaled P src dw dh i) (bitmap c ! i))
                               [0 ..< length (bitmap c)]\<rparr>"
    by (simp add: drawImage_def split: if_splits)
  show ?thesis by (simp add: d opaque)
qed

lemma drawImage_size:
  assumes "drawImage P c src dw dh = Inr d"
  shows "length (bitmap d) = length (bitmap c)"
    and "canvas_width d = canvas_width c" and "canvas_height d = canvas_height c"
  using assms by (auto simp: drawImage_def split: if_splits)

lemma drawImage_returns:
  "0 < canvas_width src \<Longrightarrow> 0 < canvas_height src \<Longrightarrow> \<exists>d. drawImage P c src dw dh = Inr d"
  by (simp add: drawImage_def)

lemma map_whiten_opaque:
  "\<forall>p\<in>set ps. alpha p = 255 \<Longrightarrow> map whiten ps = replicate (length ps) (255, 255, 255, 255)"
  by (induction ps) (simp_all add: whiten_opaque)

text \<open>
  \<^bold>\<open>C1.\<close> The specification asks for a mask of the image's native size that is white
  where the scaled snapshot has ink and opaque black elsewhere. The source fills the mask
  canvas with opaque black, draws the snapshot over it and then tests the alpha byte of
  the result, which is 255 at every pixel: whenever the image is loaded, the mask canvas
  yields a context and a snapshot is current, the mask has the native size and every
  pixel of it is opaque white, whatever the snapshot holds.
\<close>

theorem composeMask_all_white:
  assumes "image st = Some img"
    and "0 < naturalWidth img" and "0 < naturalHeight img"
    and "createContext P (naturalWidth img) (naturalHeight img)"
    and "current st = Some snapshot" and "0 < width snapshot" and "0 < height snapshot"
  shows "\<exists>maskCanvas. composeMask P st = Inr maskCanvas
           \<and> canvas_width maskCanvas = naturalWidth img
           \<and> canvas_height maskCanvas = naturalHeight img
           \<and> bitmap maskCanvas
               = replicate (naturalWidth img * naturalHeight img) (255, 255, 255, 255)"
proof -
  let ?w = "naturalWidth img" and ?h = "naturalHeight img"
  let ?maskCanvas = "createCanvas P ?w ?h"
  let ?filled = "fillRect ?maskCanvas (0, 0, 0, 255)"
  let ?temp = "createCanvas P (width snapshot) (height snapshot)"
  let ?drawing = "if context2d ?temp
                  then drawImage P ?filled (putImageData ?temp snapshot)
                         (canvas_width ?maskCanvas) (canvas_height ?maskCanvas)
                  else Inr ?filled"
  have filled: "bitmap ?filled = replicate (?w * ?h) (0, 0, 0, 255)"
    by (simp add: fillRect_black) (simp add: createCanvas_def)
  then have fo: "\<forall>p\<in>set (bitmap ?filled). alpha p = 255" by (simp add: alpha_def)
  have fdim: "canvas_width ?filled = ?w" "canvas_height ?filled = ?h"
    by (simp_all add: fillRect_def createCanvas_def)
  have src: "0 < canvas_width (putImageData ?temp snapshot)"
    "0 < canvas_height (putImageData ?temp snapshot)"
    using assms(6,7) by (simp_all add: putImageData_def createCanvas_def)
  have "\<exists>drawn. ?drawing = Inr drawn"
    using drawImage_returns[OF src, of P ?filled "canvas_width ?maskCanvas"
        "canvas_height ?maskCanvas"]
    by (cases "context2d ?temp") simp_all
  then obtain drawn where drawn: "?drawing = Inr drawn" by blast
  have dlen: "length (bitmap drawn) = ?w * ?h"
    using drawn filled by (auto simp: drawImage_size(1) split: if_splits)
  have ddim: "canvas_width drawn = ?w" "canvas_height drawn = ?h"
    using drawn fdim by (auto simp: drawImage_size(2,3) split: if_splits)
  have dop: "\<forall>p\<in>set (bitmap drawn). alpha p = 255"
    using drawn fo drawImage_opaque[OF fo] by (auto split: if_splits)
  have rd: "getImageData drawn = Inr (pixelsOf drawn)"
    using ddim assms(2,3) by (simp add: getImageData_positive)
  let ?img = "(pixelsOf drawn)\<lparr>data := map whiten (data (pixelsOf drawn))\<rparr>"
  have wd: "data ?img = replicate (?w * ?h) (255, 255, 255, 255)"
    using map_whiten_opaque[OF dop] dlen by (simp add: pixelsOf_def)
  have "bitmap (putImageData drawn ?img) = data ?img"
    by (rule putImageData_whole) (simp_all add: pixelsOf_def ddim dlen)
  with wd have b: "bitmap (putImageData drawn ?img)
      = replicate (?w * ?h) (255, 255, 255, 255)" by simp
  have d: "canvas_width (putImageData drawn ?img) = ?w"
    "canvas_height (putImageData drawn ?img) = ?h"
    using ddim by (simp_all add: putImageData_def)
  have ctx: "context2d ?maskCanvas" using assms(4) by (simp add: createCanvas_def)
  have cur: "at (history st) (historyIndex st) = Some snapshot"
    using assms(5) by (simp add: current_def)
  have "composeMask P st = Inr (putImageData drawn ?img)"
    using assms(1) ctx cur drawn rd by (simp add: composeMask_def Let_def)
  with b d show ?thesis by simp
qed

lemma specifiedMask_paintedOnce:
  "specifiedMask examplePlatform (pixelsOf inkedSurface) 2 1
     = [(255, 255, 255, 255), (0, 0, 0, 255)]"
  by (simp add: specifiedMask_def example_defs createCanvas_def putImageData_def alpha_def
      Let_def upt_rec)

text \<open>
  After one stroke that inked the left pixel of a 2 by 1 image, the snapshot under the
  cursor has ink on the left only; the mask of the source is white on both pixels, the
  mask of the specification is white on the left and black on the right.
\<close>

theorem composeMask_all_white_witness:
  "image paintedOnce = Some \<lparr>naturalWidth = 2, naturalHeight = 1\<rparr>
   \<and> createContext examplePlatform 2 1
   \<and> current paintedOnce = Some (pixelsOf inkedSurface)
   \<and> 0 < width (pixelsOf inkedSurface) \<and> 0 < height (pixelsOf inkedSurface)
   \<and> (\<exists>maskCanvas. composeMask examplePlatform paintedOnce = Inr maskCanvas
         \<and> canvas_width maskCanvas = 2 \<and> canvas_height maskCanvas = 1
         \<and> bitmap maskCanvas = [(255, 255, 255, 255), (255, 255, 255, 255)])
   \<and> specifiedMask examplePlatform (pixelsOf inkedSurface) 2 1
       = [(255, 255, 255, 255), (0, 0, 0, 255)]"
proof -
  let ?img = "\<lparr>naturalWidth = 2, naturalHeight = 1\<rparr>"
  have i: "image paintedOnce = Some ?img"
    by (simp add: paintedOnce_def loaded_def)
  have n: "0 < naturalWidth ?img" "0 < naturalHeight ?img"
    by simp_all
  have x: "createContext examplePlatform 2 1"
    by (simp add: examplePlatform_def)
  then have x': "createContext examplePlatform (naturalWidth ?img) (naturalHeight ?img)"
    by simp
  have c: "current paintedOnce = Some (pixelsOf inkedSurface)"
    by (simp add: paintedOnce_def current_def at_def)
  have s: "0 < width (pixelsOf inkedSurface)" "0 < height (pixelsOf inkedSurface)"
    by (simp_all add: pixelsOf_def inkedSurface_def)
  from composeMask_all_white[OF i n x' c s] obtain maskCanvas
    where m: "composeMask examplePlatform paintedOnce = Inr maskCanvas"
      "canvas_width maskCanvas = 2" "canvas_height maskCanvas = 1"
      "bitmap maskCanvas = replicate (2 * 1) (255, 255, 255, 255)"
    by auto
  from m(4) have "bitmap maskCanvas = [(255, 255, 255, 255), (255, 255, 255, 255)]"
    by (simp add: numeral_2_eq_2)
  with m(1-3) i x c s specifiedMask_paintedOnce show ?thesis by blast
qed

section \<open>A failed submission\<close>

lemma caught_message:
  "\<exists>message. caught st e = st\<lparr>error := Some message, isLoading := False\<rparr>
      \<and> (message = [] \<longrightarrow> e = Error [])"
  by (cases e) (auto simp: caught_def)

lemma composeMask_thrown: "composeMask P st = Inl e \<Longrightarrow> e \<noteq> Error []"
  by (auto simp: composeMask_def drawImage_def getImageData_def Let_def
      split: option.splits if_splits sum.splits)

lemma fileToBase64_thrown: "fileToBase64 P file = Inl e \<Longrightarrow> e \<noteq> Error []"
  by (auto simp: fileToBase64_def split: option.splits)

lemma editImageWithMask_thrown: "editImageWithMask P a b c = Inl e \<Longrightarrow> e \<noteq> Error []"
  by (auto simp: editImageWithMask_def split: if_splits sum.splits)

text \<open>
  \<^bold>\<open>C7.\<close> When validation passes (a prompt that is not blank, a mounted surface of
  positive area with a pixel that is not transparent) and the attempt fails, that is, nothing is handed to
  \<^verbatim>\<open>onEditComplete\<close>, whether the mask could not be built, the file could not be read
  or the service call threw, then the state after the attempt is the state before it
  with a non-empty error message set and the loading flag off: the image, the file, the
  drawing surface, the history, the cursor and the prompt are what they were.
\<close>

theorem failed_submission_keeps_state:
  assumes "handleGenerate P st = (st', calls, None)"
    and "trim (prompt st) \<noteq> []"
    and "drawingCanvasRef st = Some canvas" and "context2d canvas"
    and "0 < canvas_width canvas" and "0 < canvas_height canvas"
    and "\<exists>p\<in>set (bitmap canvas). p \<noteq> transparent"
  shows "\<exists>message. message \<noteq> [] \<and> st' = st\<lparr>error := Some message, isLoading := False\<rparr>"
proof -
  let ?st1 = "st\<lparr>error := None, isLoading := True\<rparr>"
  have rd: "getImageData canvas = Inr (pixelsOf canvas)"
    using assms(5,6) by (simp add: getImageData_positive)
  have ex: "list_ex (\<lambda>color. color \<noteq> 0) (Uint32Array (data (pixelsOf canvas)))"
    using assms(7) by (simp add: list_ex_Uint32Array pixelsOf_def)
  have "\<exists>e. e \<noteq> Error [] \<and> st' = caught ?st1 e"
    using assms(1-4) rd ex
    by (auto simp: handleGenerate_def Let_def split: sum.splits
        dest: composeMask_thrown fileToBase64_thrown editImageWithMask_thrown)
  then obtain e where e: "e \<noteq> Error []" "st' = caught ?st1 e" by blast
  from caught_message[of ?st1 e] e show ?thesis by auto
qed

lemma composeMask_frame:
  "composeMask P (st\<lparr>error := e, isLoading := l\<rparr>) = composeMask P st"
  by (cases "image st") (simp_all add: composeMask_def Let_def)

lemma composeMask_paintedOnce: "composeMask examplePlatform paintedOnce = Inr whiteMask"
  by (simp add: composeMask_def example_defs createCanvas_def fillRect_def drawImage_def
      putImageData_def sourceOver_def whiten_def at_def Let_def upt_rec whiteMask_def)

lemma editImageWithMask_blocked:
  "editImageWithMask examplePlatform ''data:image/png;base64,photo'' ''11'' ''make the sky orange''
     = Inl (Error (''Failed to edit image: No image was generated. ''
          @ ''The response may have been blocked due to safety policies. ''
          @ ''Safety feedback: HARM_CATEGORY_HARASSMENT:HIGH''))"
  by (simp add: editImageWithMask_def tryGenerate_def noImageMessage_def examplePlatform_def
      blockedResponse_def firstPart_def firstCandidate_def at_def Let_def)

lemma handleGenerate_paintedOnce:
  "handleGenerate examplePlatform paintedOnce =
     (paintedOnce\<lparr>error := Some (''Failed to edit image: No image was generated. ''
          @ ''The response may have been blocked due to safety policies. ''
          @ ''Safety feedback: HARM_CATEGORY_HARASSMENT:HIGH''), isLoading := False\<rparr>,
      [(''data:image/png;base64,photo'', ''11'', ''make the sky orange'')], None)"
proof -
  have t: "trim (prompt paintedOnce) \<noteq> []"
    by (simp add: paintedOnce_def loaded_def trim_def isWhiteSpace_def)
  have d: "drawingCanvasRef paintedOnce = Some inkedSurface" "context2d inkedSurface"
    by (simp_all add: paintedOnce_def inkedSurface_def)
  have g: "getImageData inkedSurface = Inr (pixelsOf inkedSurface)"
    by (simp add: getImageData_def inkedSurface_def)
  have x: "list_ex (\<lambda>color. color \<noteq> 0) (Uint32Array (data (pixelsOf inkedSurface)))"
    by (simp add: list_ex_Uint32Array example_defs)
  have m: "composeMask examplePlatform (paintedOnce\<lparr>error := None, isLoading := True\<rparr>)
             = Inr whiteMask"
    by (simp only: composeMask_frame composeMask_paintedOnce)
  have u: "toDataURL examplePlatform whiteMask = ''11''"
    by (simp add: examplePlatform_def whiteMask_def)
  have f: "imageFile paintedOnce = ''photo''" "prompt paintedOnce = ''make the sky orange''"
    by (simp_all add: paintedOnce_def loaded_def)
  have r: "fileToBase64 examplePlatform ''photo'' = Inr ''data:image/png;base64,photo''"
    by (simp add: fileToBase64_def examplePlatform_def)
  show ?thesis
    using t d x
    by (simp add: handleGenerate_def Let_def g m u f r editImageWithMask_blocked caught_def)
qed

theorem failed_submission_keeps_state_witness:
  "trim (prompt paintedOnce) \<noteq> []
   \<and> drawingCanvasRef paintedOnce = Some inkedSurface \<and> context2d inkedSurface
   \<and> 0 < canvas_width inkedSurface \<and> 0 < canvas_height inkedSurface
   \<and> (\<exists>p\<in>set (bitmap inkedSurface). p \<noteq> transparent)
   \<and> snd (snd (handleGenerate examplePlatform paintedOnce)) = None
   \<and> (\<exists>message. message \<noteq> []
         \<and> fst (handleGenerate examplePlatform paintedOnce)
             = paintedOnce\<lparr>error := Some message, isLoading := False\<rparr>)"
proof -
  have h: "handleGenerate examplePlatform paintedOnce
      = (fst (handleGenerate examplePlatform paintedOnce),
         fst (snd (handleGenerate examplePlatform paintedOnce)), None)"
    by (simp add: handleGenerate_paintedOnce)
  have v: "trim (prompt paintedOnce) \<noteq> []"
    "drawingCanvasRef paintedOnce = Some inkedSurface" "context2d inkedSurface"
    "0 < canvas_width inkedSurface" "0 < canvas_height inkedSurface"
    "\<exists>p\<in>set (bitmap inkedSurface). p \<noteq> transparent"
    by (simp_all add: paintedOnce_def loaded_def inkedSurface_def trim_def isWhiteSpace_def
        ink_def transparent_def)
  have n: "snd (snd (handleGenerate examplePlatform paintedOnce)) = None"
    by (simp add: handleGenerate_paintedOnce)
  from failed_submission_keeps_state[OF h v] v n show ?thesis by blast
qed

section \<open>The service's answer without an image\<close>

lemma editImageWithMask_promptBlocked:
  "editImageWithMask promptBlockingPlatform ''photo'' ''11'' ''make the sky orange''
     = Inl (Error (''Failed to edit image: No image was generated. ''
          @ ''The response may have been blocked due to safety policies.''))"
  by (simp add: editImageWithMask_def tryGenerate_def noImageMessage_def examplePlatform_def
      promptBlockingPlatform_def promptBlockedResponse_def firstPart_def firstCandidate_def
      Let_def)

text \<open>
  \<^bold>\<open>C8\<close> as the specification has it: when the response holds no image, the message
  of the error includes whatever safety details the response carries. It fails on a
  blocked prompt: the response carries ratings in \<^verbatim>\<open>promptFeedback\<close>, and the
  message is the bare one, without them.
\<close>

theorem prompt_block_ratings_counterexample:
  "API_KEY promptBlockingPlatform = Some ''k''
   \<and> generateContent promptBlockingPlatform (request ''photo'' ''11'' ''make the sky orange'')
       = Inr promptBlockedResponse
   \<and> Option.bind (firstPart promptBlockedResponse) inlineData = None
   \<and> Option.bind (promptFeedback promptBlockedResponse) promptSafetyRatings
       = Some [SafetyRating ''HARM_CATEGORY_HARASSMENT'' ''HIGH'']
   \<and> editImageWithMask promptBlockingPlatform ''photo'' ''11'' ''make the sky orange''
       = Inl (Error (''Failed to edit image: No image was generated. ''
            @ ''The response may have been blocked due to safety policies.''))
   \<and> \<not> sublist
         (JSON_stringify promptBlockingPlatform [SafetyRating ''HARM_CATEGORY_HARASSMENT'' ''HIGH''])
         (''Failed to edit image: No image was generated. ''
            @ ''The response may have been blocked due to safety policies.'')"
proof -
  have "JSON_stringify promptBlockingPlatform [SafetyRating ''HARM_CATEGORY_HARASSMENT'' ''HIGH'']
          = ''HARM_CATEGORY_HARASSMENT:HIGH''"
    by (simp add: promptBlockingPlatform_def examplePlatform_def)
  moreover have "\<not> sublist ''HARM_CATEGORY_HARASSMENT:HIGH''
      (''Failed to edit image: No image was generated. ''
         @ ''The response may have been blocked due to safety policies.'')"
    by (simp add: sublist_Cons_right)
  ultimately show ?thesis
    by (simp only: editImageWithMask_promptBlocked)
       (simp add: promptBlockingPlatform_def examplePlatform_def promptBlockedResponse_def
          firstPart_def firstCandidate_def)
qed

text \<open>
  \<^bold>\<open>C8\<close>, amended. The source looks for safety ratings on the first candidate of the
  response and nowhere else. When the key is set and the service answers the request
  with a response whose first part holds no image, \<^verbatim>\<open>editImageWithMask\<close> fails with
  an error, and if the response's first candidate carries safety ratings, the message
  of the error ends with their \<^verbatim>\<open>JSON.stringify\<close> rendering.
\<close>

theorem no_image_error_has_safety_ratings:
  assumes "API_KEY P = Some key" and "key \<noteq> []"
    and "generateContent P (request originalImageBase64 maskImageBase64 promptText) = Inr response"
    and "Option.bind (firstPart response) inlineData = None"
  shows "\<exists>message.
           editImageWithMask P originalImageBase64 maskImageBase64 promptText = Inl (Error message)
           \<and> (\<forall>ratings. Option.bind (firstCandidate response) safetyRatings = Some ratings
                  \<longrightarrow> suffix (JSON_stringify P ratings) message)"
  using assms
  by (auto simp: editImageWithMask_def tryGenerate_def noImageMessage_def Let_def suffix_def
      split: option.splits)

theorem no_image_error_has_safety_ratings_witness:
  "API_KEY examplePlatform = Some ''k'' \<and> ''k'' \<noteq> []
   \<and> generateContent examplePlatform (request ''photo'' ''11'' ''make the sky orange'')
       = Inr blockedResponse
   \<and> Option.bind (firstPart blockedResponse) inlineData = None
   \<and> Option.bind (firstCandidate blockedResponse) safetyRatings
       = Some [SafetyRating ''HARM_CATEGORY_HARASSMENT'' ''HIGH'']
   \<and> (\<exists>message. editImageWithMask examplePlatform ''photo'' ''11'' ''make the sky orange''
                    = Inl (Error message)
         \<and> suffix (JSON_stringify examplePlatform [SafetyRating ''HARM_CATEGORY_HARASSMENT'' ''HIGH''])
              message)"
proof -
  have h: "API_KEY examplePlatform = Some ''k''" "''k'' \<noteq> []"
    "generateContent examplePlatform (request ''photo'' ''11'' ''make the sky orange'')
       = Inr blockedResponse"
    "Option.bind (firstPart blockedResponse) inlineData = None"
    by (simp_all add: examplePlatform_def blockedResponse_def firstPart_def firstCandidate_def
        at_def)
  have r: "Option.bind (firstCandidate blockedResponse) safetyRatings
       = Some [SafetyRating ''HARM_CATEGORY_HARASSMENT'' ''HIGH'']"
    by (simp add: blockedResponse_def firstCandidate_def at_def)
  from no_image_error_has_safety_ratings[OF h] r h show ?thesis by blast
qed


end
